theory Spec2Isabelle
  imports Main "HOL-Library.Word"
begin

section \<open>The data of \<open>edm::InputSource\<close> (FWCore/Framework/interface/InputSource.h)\<close>

text \<open>The two enumerations of the item state machine, in the order of the header.\<close>

datatype ItemType =
  IsInvalid | IsStop | IsFile | IsRun | IsLumi | IsEvent | IsRepeat | IsSynchronize

datatype ItemPosition = Invalid | LastItemToBeMerged | NotLastItemToBeMerged

datatype ProcessingMode = Runs | RunsAndLumis | RunsLumisAndEvents

text \<open>
  \<open>class ItemTypeInfo\<close>: a pair of private members \<open>type_\<close> and \<open>position_\<close>, one
  \<open>constexpr\<close> constructor whose two arguments both have defaults, and two accessors.
  The constructor stores its arguments as they come: it has no check. The members are
  the fields \<open>type_m\<close> and \<open>position_m\<close>.
\<close>

record ItemTypeInfo =
  type_m :: ItemType
  position_m :: ItemPosition

definition ItemTypeInfo2 :: "ItemType \<Rightarrow> ItemPosition \<Rightarrow> ItemTypeInfo" where
  \<comment> \<open>\<open>ItemTypeInfo(type, position)\<close>\<close>
  "ItemTypeInfo2 t p = \<lparr>type_m = t, position_m = p\<rparr>"

definition ItemTypeInfo1 :: "ItemType \<Rightarrow> ItemTypeInfo" where
  \<comment> \<open>\<open>ItemTypeInfo(type)\<close>, also the implicit conversion from \<open>ItemType\<close>\<close>
  "ItemTypeInfo1 t = ItemTypeInfo2 t Invalid"

definition ItemTypeInfo0 :: ItemTypeInfo where
  \<comment> \<open>\<open>ItemTypeInfo()\<close>\<close>
  "ItemTypeInfo0 = ItemTypeInfo2 IsInvalid Invalid"

definition itemType :: "ItemTypeInfo \<Rightarrow> ItemType" where
  "itemType i = type_m i"

definition itemPosition :: "ItemTypeInfo \<Rightarrow> ItemPosition" where
  "itemPosition i = position_m i"

text \<open>
  The data members of \<open>InputSource\<close>; a member \<open>x_\<close> of the class is the field
  \<open>x_m\<close> here, since a name cannot end with an underscore. A C++ \<open>int\<close> or
  \<open>unsigned int\<close> is a 32-bit word, an \<open>int\<close> being read as signed (\<open>sint\<close>); \<open>-1\<close>
  stands for "unlimited". A \<open>std::shared_ptr\<close> is \<open>None\<close> when null and \<open>Some\<close> of what
  it points to otherwise; \<open>'r\<close> is \<open>RunAuxiliary\<close> and \<open>'l\<close> is
  \<open>LuminosityBlockAuxiliary\<close>. A \<open>steady_clock\<close> time point is its count of ticks, and a
  tick is a nanosecond (as in libstdc++ and libc++); the count is an integer without a
  bound, since 64 bits of nanoseconds last for 292 years. The members that are objects of
  classes declared elsewhere (\<open>actReg_\<close>, \<open>moduleDescription_\<close>, \<open>productRegistry_\<close>,
  \<open>processHistoryRegistry_\<close>, \<open>branchIDListHelper_\<close>, \<open>processBlockHelper_\<close>,
  \<open>thinnedAssociationsHelper_\<close>, \<open>time_\<close>) are kept together in \<open>collaborators_\<close>, of
  type \<open>'c\<close>. The members of a class derived from \<open>InputSource\<close> are the extension of
  the record, so that a virtual function of the derived class is a function on the
  whole record scheme.
\<close>

type_synonym time_point = int

record ('r, 'l, 'c) InputSource =
  collaborators_m :: 'c
  maxEvents_m :: "32 word"
  remainingEvents_m :: "32 word"
  maxLumis_m :: "32 word"
  remainingLumis_m :: "32 word"
  readCount_m :: "32 word"
  maxSecondsUntilRampdown_m :: "32 word"
  processingStart_m :: time_point
  processingMode_m :: ProcessingMode
  processGUID_m :: string
  newRun_m :: bool
  newLumi_m :: bool
  eventCached_m :: bool
  state_m :: ItemTypeInfo
  runAuxiliary_m :: "'r option"
  lumiAuxiliary_m :: "'l option"
  statusFileName_m :: string
  numberOfEventsBeforeBigSkip_m :: "32 word"

section \<open>The member functions defined in the header\<close>

definition repeat :: "('r, 'l, 'c, 'z) InputSource_scheme \<Rightarrow> ('r, 'l, 'c, 'z) InputSource_scheme" where
  "repeat s = s\<lparr>remainingEvents_m := maxEvents_m s, remainingLumis_m := maxLumis_m s\<rparr>"

definition maxEvents :: "('r, 'l, 'c, 'z) InputSource_scheme \<Rightarrow> 32 word" where
  "maxEvents s = maxEvents_m s"

definition remainingEvents :: "('r, 'l, 'c, 'z) InputSource_scheme \<Rightarrow> 32 word" where
  "remainingEvents s = remainingEvents_m s"

definition maxLuminosityBlocks :: "('r, 'l, 'c, 'z) InputSource_scheme \<Rightarrow> 32 word" where
  "maxLuminosityBlocks s = maxLumis_m s"

definition remainingLuminosityBlocks :: "('r, 'l, 'c, 'z) InputSource_scheme \<Rightarrow> 32 word" where
  "remainingLuminosityBlocks s = remainingLumis_m s"

definition runAuxiliary :: "('r, 'l, 'c, 'z) InputSource_scheme \<Rightarrow> 'r option" where
  "runAuxiliary s = runAuxiliary_m s"

definition luminosityBlockAuxiliary :: "('r, 'l, 'c, 'z) InputSource_scheme \<Rightarrow> 'l option" where
  "luminosityBlockAuxiliary s = lumiAuxiliary_m s"

definition state :: "('r, 'l, 'c, 'z) InputSource_scheme \<Rightarrow> ItemTypeInfo" where
  "state s = state_m s"

definition newRun :: "('r, 'l, 'c, 'z) InputSource_scheme \<Rightarrow> bool" where
  "newRun s = newRun_m s"

definition newLumi :: "('r, 'l, 'c, 'z) InputSource_scheme \<Rightarrow> bool" where
  "newLumi s = newLumi_m s"

text \<open>
  \<open>setRunAuxiliary(RunAuxiliary* rp)\<close> hands the raw pointer to the shared pointer
  (\<open>runAuxiliary_.reset(rp)\<close>); a null \<open>rp\<close> is \<open>None\<close>. \<open>newRun_ = newLumi_ = true\<close>
  assigns \<open>newLumi_\<close> first and then \<open>newRun_\<close>.
\<close>

definition setRunAuxiliary ::
  "'r option \<Rightarrow> ('r, 'l, 'c, 'z) InputSource_scheme \<Rightarrow> ('r, 'l, 'c, 'z) InputSource_scheme" where
  "setRunAuxiliary rp s = s\<lparr>runAuxiliary_m := rp, newLumi_m := True, newRun_m := True\<rparr>"

definition setLuminosityBlockAuxiliary ::
  "'l option \<Rightarrow> ('r, 'l, 'c, 'z) InputSource_scheme \<Rightarrow> ('r, 'l, 'c, 'z) InputSource_scheme" where
  "setLuminosityBlockAuxiliary lbp s = s\<lparr>lumiAuxiliary_m := lbp, newLumi_m := True\<rparr>"

definition resetRunAuxiliary ::
  "bool \<Rightarrow> ('r, 'l, 'c, 'z) InputSource_scheme \<Rightarrow> ('r, 'l, 'c, 'z) InputSource_scheme" where
  "resetRunAuxiliary isNewRun s =
     s\<lparr>runAuxiliary_m := None, newLumi_m := isNewRun, newRun_m := isNewRun\<rparr>"

definition resetLuminosityBlockAuxiliary ::
  "bool \<Rightarrow> ('r, 'l, 'c, 'z) InputSource_scheme \<Rightarrow> ('r, 'l, 'c, 'z) InputSource_scheme" where
  "resetLuminosityBlockAuxiliary isNewLumi s = s\<lparr>lumiAuxiliary_m := None, newLumi_m := isNewLumi\<rparr>"

text \<open>\<open>reset()\<close> calls both with the default argument \<open>true\<close>, the lumi one first.\<close>

definition reset :: "('r, 'l, 'c, 'z) InputSource_scheme \<Rightarrow> ('r, 'l, 'c, 'z) InputSource_scheme" where
  "reset s =
     (let s1 = resetLuminosityBlockAuxiliary True s;
          s2 = resetRunAuxiliary True s1
      in s2\<lparr>state_m := ItemTypeInfo0\<rparr>)"

text \<open>
  The limit checks. \<open>std::chrono::steady_clock::now()\<close> reads the clock: the reading is
  the argument \<open>now\<close>. \<open>duration_cast<seconds>\<close> of a count of nanoseconds is the
  integer division by \<open>10^9\<close> that truncates towards zero, and its \<open>count()\<close> is a
  64-bit signed value, to which the \<open>int\<close> on the other side of the comparison is
  converted.
\<close>

definition eventLimitReached :: "('r, 'l, 'c, 'z) InputSource_scheme \<Rightarrow> bool" where
  "eventLimitReached s = (remainingEvents_m s = 0)"

definition duration_cast_seconds :: "int \<Rightarrow> int" where
  "duration_cast_seconds d =
     (if d < 0 then - ((- d) div 1000000000) else d div 1000000000)"

definition lumiLimitReached :: "time_point \<Rightarrow> ('r, 'l, 'c, 'z) InputSource_scheme \<Rightarrow> bool" where
  "lumiLimitReached now s =
     (if remainingLumis_m s = 0 then True
      else if sint (maxSecondsUntilRampdown_m s) \<le> 0 then False
      else
        (let end_tp = now;
             elapsed = end_tp - processingStart_m s
         in if duration_cast_seconds elapsed > sint (maxSecondsUntilRampdown_m s) then True
            else False))"

definition limitReached :: "time_point \<Rightarrow> ('r, 'l, 'c, 'z) InputSource_scheme \<Rightarrow> bool" where
  "limitReached now s = (eventLimitReached s \<or> lumiLimitReached now s)"

section \<open>Member functions declared in the header and defined elsewhere\<close>

text \<open>
  Modelled from the spec: \<open>InputSource::nextItemType()\<close> (the spec's \<open>advance()\<close>) is
  declared in the header and defined in a file that is not among the sources. The spec
  (4.1) gives its steps, in order: (1) if a limit (event count, lumi count or rampdown
  deadline) has been reached, force the type to Stop regardless of the adapter's
  answer; (2) otherwise delegate to the adapter's "what is next" hook, the pure virtual
  \<open>getNextItemType()\<close>; (3) cache the result, so that repeated calls without an
  intervening read return the same answer. The cache is the member \<open>state_\<close>; the spec
  says of \<open>reset()\<close> that clearing the cached ItemTypeInfo forces the next call to
  query the adapter again, so a cached answer is one whose type is not \<open>IsInvalid\<close>
  (two ItemTypeInfo are never compared: the test is on the type). The spec forces the
  type only; the forced Stop is \<open>ItemTypeInfo(IsStop)\<close>, whose position is \<open>Invalid\<close>.
  The hook is a function of the derived class: it takes the whole object and returns its
  answer and the object as it leaves it. The call returns \<open>state_\<close>.
\<close>

definition nextItemType ::
  "(('r, 'l, 'c, 'z) InputSource_scheme \<Rightarrow> ItemTypeInfo \<times> ('r, 'l, 'c, 'z) InputSource_scheme)
   \<Rightarrow> time_point \<Rightarrow> ('r, 'l, 'c, 'z) InputSource_scheme
   \<Rightarrow> ItemTypeInfo \<times> ('r, 'l, 'c, 'z) InputSource_scheme" where
  "nextItemType getNextItemType now s =
     (if limitReached now s then
        (let s' = s\<lparr>state_m := ItemTypeInfo1 IsStop\<rparr> in (state_m s', s'))
      else if itemType (state_m s) = IsInvalid then
        (case getNextItemType s of
           (newState, s1) \<Rightarrow> (let s' = s1\<lparr>state_m := newState\<rparr> in (state_m s', s')))
      else (state_m s, s))"

text \<open>
  Modelled from the spec: \<open>InputSource::goToEvent\<close> and the virtual \<open>goToEvent_\<close> are
  declared in the header and defined in a file that is not among the sources. The spec
  (4.2, 6, 7): \<open>goToEvent(id)\<close> seeks to an event and returns whether it was found, through
  the optional hook \<open>goToEventHook\<close>, whose default is "unsupported/no-op"; calling a seek
  on an adapter that does not implement it is reported as a boolean false, never a
  fault. \<open>goToEvent_base\<close> is \<open>InputSource::goToEvent_\<close>, the hook as the base class
  defines it; \<open>'e\<close> is \<open>EventID\<close> and \<open>'s\<close> the source.
\<close>

definition goToEvent_base :: "'e \<Rightarrow> 's \<Rightarrow> bool \<times> 's" where
  "goToEvent_base eventID s = (False, s)"

text \<open>
  Modelled from the spec: \<open>InputSource::goToEvent\<close>, declared in the header and defined
  in a file that is not among the sources, delegates to the hook of the object (spec 4.2:
  each public operation delegates to the adapter hooks); that hook is \<open>goToEvent_base\<close>
  when the adapter does not override it.
\<close>

definition goToEvent :: "('e \<Rightarrow> 's \<Rightarrow> bool \<times> 's) \<Rightarrow> 'e \<Rightarrow> 's \<Rightarrow> bool \<times> 's" where
  "goToEvent goToEvent_hook eventID s = goToEvent_hook eventID s"

text \<open>
  The six sentry classes of the header, each with the datum that identifies the unit of
  work in flight (the stream of the \<open>StreamContext\<close>, the \<open>LuminosityBlockIndex\<close>, the
  \<open>RunIndex\<close>, the process name, the logical file name).
\<close>

datatype Sentry =
    EventSourceSentry nat
  | LumiSourceSentry nat
  | RunSourceSentry nat
  | ProcessBlockSourceSentry string
  | FileOpenSentry string
  | FileCloseSentry string

text \<open>
  A notification says which sentry begins or ends; the notifications emitted so far are
  a list, oldest first. A fault is an exception that propagates.
\<close>

datatype notification = Begin Sentry | End Sentry

datatype fault = Fault string

text \<open>
  Modelled from the spec: the constructors of the sentries are declared in the header
  and defined in a file that is not among the sources. The spec (4.3): construction emits
  a "begin" notification.
\<close>

definition Sentry_ctor :: "Sentry \<Rightarrow> notification list \<Rightarrow> notification list" where
  "Sentry_ctor k emitted = emitted @ [Begin k]"

text \<open>
  Modelled from the spec: the destructors of the sentries are declared in the header
  and defined in a file that is not among the sources. The spec (4.3): destruction emits
  the matching "end" notification unconditionally.
\<close>

definition Sentry_dtor :: "Sentry \<Rightarrow> notification list \<Rightarrow> notification list" where
  "Sentry_dtor k emitted = emitted @ [End k]"

text \<open>
  Modelled from the spec: a scope that holds a sentry, for which the header has the
  classes only. The spec (4.3): scoped acquisition, the destruction happening also when
  the scope is exited by a fault. The constructor runs first, then the body, which may
  emit notifications of its own and ends with a value (\<open>Inr\<close>) or with a fault that
  propagates (\<open>Inl\<close>); the destructor runs on both exits, and the outcome of the body is
  the outcome of the scope. The copy operations of the sentries are deleted in the
  header, so a sentry that is constructed is destroyed once.
\<close>

definition sentry_scope ::
  "Sentry \<Rightarrow> (notification list \<Rightarrow> (fault + 'a) \<times> notification list)
   \<Rightarrow> notification list \<Rightarrow> (fault + 'a) \<times> notification list" where
  "sentry_scope k body emitted =
     (case body (Sentry_ctor k emitted) of
        (Inr v, emitted') \<Rightarrow> (Inr v, Sentry_dtor k emitted')
      | (Inl e, emitted') \<Rightarrow> (Inl e, Sentry_dtor k emitted'))"

section \<open>The invariant of ItemTypeInfo\<close>

text \<open>
  The comment on \<open>position_\<close> in the header and the spec's data model: the position is
  \<open>Invalid\<close> unless the type is \<open>IsRun\<close> or \<open>IsLumi\<close>.
\<close>

definition position_invariant :: "ItemTypeInfo \<Rightarrow> bool" where
  "position_invariant i =
     (itemPosition i \<noteq> Invalid \<longrightarrow> itemType i = IsRun \<or> itemType i = IsLumi)"

section \<open>Concrete sources for the examples\<close>

text \<open>A source in the middle of a run, of no derived class.\<close>

definition example_source :: "(nat, nat, unit) InputSource" where
  "example_source =
     \<lparr>collaborators_m = (), maxEvents_m = 3, remainingEvents_m = 1, maxLumis_m = - 1,
      remainingLumis_m = 2, readCount_m = 2, maxSecondsUntilRampdown_m = 5,
      processingStart_m = 1000000000, processingMode_m = RunsLumisAndEvents,
      processGUID_m = ''guid'', newRun_m = False, newLumi_m = False, eventCached_m = True,
      state_m = ItemTypeInfo1 IsEvent, runAuxiliary_m = Some 7, lumiAuxiliary_m = Some 8,
      statusFileName_m = '''', numberOfEventsBeforeBigSkip_m = 0\<rparr>"

text \<open>
  An adapter for the examples: a derived class that holds the items still to come and
  whose \<open>getNextItemType()\<close> hands out the first of them and drops it, and answers Stop
  when none is left.
\<close>

record ('r, 'l, 'c) QueueSource = "('r, 'l, 'c) InputSource" +
  pending_m :: "ItemTypeInfo list"

definition QueueSource_getNextItemType ::
  "('r, 'l, 'c, 'z) QueueSource_scheme \<Rightarrow> ItemTypeInfo \<times> ('r, 'l, 'c, 'z) QueueSource_scheme" where
  "QueueSource_getNextItemType s =
     (case pending_m s of
        [] \<Rightarrow> (ItemTypeInfo1 IsStop, s)
      | i # is \<Rightarrow> (i, s\<lparr>pending_m := is\<rparr>))"

text \<open>
  A source of that class before its first item: no count limit, a rampdown threshold of
  5 seconds, processing started at the clock reading of 1 second.
\<close>

definition example_queue :: "(nat, nat, unit) QueueSource" where
  "example_queue =
     \<lparr>collaborators_m = (), maxEvents_m = - 1, remainingEvents_m = - 1, maxLumis_m = - 1,
      remainingLumis_m = - 1, readCount_m = 0, maxSecondsUntilRampdown_m = 5,
      processingStart_m = 1000000000, processingMode_m = RunsLumisAndEvents,
      processGUID_m = ''guid'', newRun_m = True, newLumi_m = True, eventCached_m = False,
      state_m = ItemTypeInfo0, runAuxiliary_m = None, lumiAuxiliary_m = None,
      statusFileName_m = '''', numberOfEventsBeforeBigSkip_m = 0,
      pending_m = [ItemTypeInfo1 IsFile, ItemTypeInfo2 IsRun LastItemToBeMerged]\<rparr>"

section \<open>repeat()\<close>

text \<open>
  C1. \<open>repeat()\<close> sets the remaining event count to \<open>maxEvents_\<close> and the remaining lumi
  count to \<open>maxLumis_\<close> and changes nothing else: the source before and the source after
  agree once these two members are overwritten by the same values, whatever they are; in
  particular \<open>processingStart_\<close> and \<open>maxSecondsUntilRampdown_\<close> are as before.
\<close>

theorem repeat_restores_counts_only:
  "remainingEvents (repeat s) = maxEvents s
   \<and> remainingLuminosityBlocks (repeat s) = maxLuminosityBlocks s
   \<and> maxEvents (repeat s) = maxEvents s
   \<and> maxLuminosityBlocks (repeat s) = maxLuminosityBlocks s
   \<and> processingStart_m (repeat s) = processingStart_m s
   \<and> maxSecondsUntilRampdown_m (repeat s) = maxSecondsUntilRampdown_m s
   \<and> (repeat s)\<lparr>remainingEvents_m := e, remainingLumis_m := l\<rparr>
       = s\<lparr>remainingEvents_m := e, remainingLumis_m := l\<rparr>"
  by (simp add: repeat_def remainingEvents_def maxEvents_def
      remainingLuminosityBlocks_def maxLuminosityBlocks_def)

theorem repeat_restores_counts_only_witness:
  "remainingEvents (repeat example_source) = 3
   \<and> remainingLuminosityBlocks (repeat example_source) = - 1
   \<and> processingStart_m (repeat example_source) = 1000000000
   \<and> maxSecondsUntilRampdown_m (repeat example_source) = 5"
  using repeat_restores_counts_only [of example_source]
  by (simp add: example_source_def maxEvents_def maxLuminosityBlocks_def)

section \<open>The auxiliary snapshots and the flags\<close>

text \<open>
  C5. For every boolean \<open>b\<close>: after \<open>resetRunAuxiliary(b)\<close> the accessor
  \<open>runAuxiliary()\<close> returns null and \<open>newRun()\<close> is \<open>b\<close>; after
  \<open>resetLuminosityBlockAuxiliary(b)\<close> the accessor \<open>luminosityBlockAuxiliary()\<close> returns
  null and \<open>newLumi()\<close> is \<open>b\<close>.
\<close>

theorem reset_auxiliary_accessors:
  "runAuxiliary (resetRunAuxiliary b s) = None
   \<and> newRun (resetRunAuxiliary b s) = b
   \<and> luminosityBlockAuxiliary (resetLuminosityBlockAuxiliary b s) = None
   \<and> newLumi (resetLuminosityBlockAuxiliary b s) = b"
  by (simp add: runAuxiliary_def newRun_def luminosityBlockAuxiliary_def newLumi_def
      resetRunAuxiliary_def resetLuminosityBlockAuxiliary_def)

theorem reset_auxiliary_accessors_witness:
  "runAuxiliary example_source = Some 7
   \<and> runAuxiliary (resetRunAuxiliary False example_source) = None
   \<and> newRun (resetRunAuxiliary False example_source) = False
   \<and> luminosityBlockAuxiliary example_source = Some 8
   \<and> luminosityBlockAuxiliary (resetLuminosityBlockAuxiliary True example_source) = None
   \<and> newLumi (resetLuminosityBlockAuxiliary True example_source) = True"
  using reset_auxiliary_accessors [of False example_source]
    reset_auxiliary_accessors [of True example_source]
  by (simp add: example_source_def runAuxiliary_def luminosityBlockAuxiliary_def)

text \<open>
  C10. \<open>setRunAuxiliary(rp)\<close> installs the run snapshot and sets \<open>newRun\<close> and \<open>newLumi\<close>
  to true; \<open>setLuminosityBlockAuxiliary(lbp)\<close> installs the lumi snapshot and sets
  \<open>newLumi\<close> to true, and \<open>newRun\<close> is as before; \<open>resetRunAuxiliary(b)\<close> assigns \<open>b\<close> to
  \<open>newRun\<close> and to \<open>newLumi\<close>; \<open>resetLuminosityBlockAuxiliary(b)\<close> assigns \<open>b\<close> to
  \<open>newLumi\<close>, and \<open>newRun\<close> is as before. Each of the four writes its snapshot and the
  flags named and no other member.
\<close>

theorem set_and_reset_auxiliary_flags:
  "runAuxiliary (setRunAuxiliary rp s) = rp
   \<and> newRun (setRunAuxiliary rp s) = True
   \<and> newLumi (setRunAuxiliary rp s) = True
   \<and> (setRunAuxiliary rp s)\<lparr>runAuxiliary_m := r', newRun_m := n, newLumi_m := m\<rparr>
       = s\<lparr>runAuxiliary_m := r', newRun_m := n, newLumi_m := m\<rparr>
   \<and> luminosityBlockAuxiliary (setLuminosityBlockAuxiliary lbp s) = lbp
   \<and> newLumi (setLuminosityBlockAuxiliary lbp s) = True
   \<and> newRun (setLuminosityBlockAuxiliary lbp s) = newRun s
   \<and> (setLuminosityBlockAuxiliary lbp s)\<lparr>lumiAuxiliary_m := l', newLumi_m := m\<rparr>
       = s\<lparr>lumiAuxiliary_m := l', newLumi_m := m\<rparr>
   \<and> newRun (resetRunAuxiliary b s) = b
   \<and> newLumi (resetRunAuxiliary b s) = b
   \<and> (resetRunAuxiliary b s)\<lparr>runAuxiliary_m := r', newRun_m := n, newLumi_m := m\<rparr>
       = s\<lparr>runAuxiliary_m := r', newRun_m := n, newLumi_m := m\<rparr>
   \<and> newLumi (resetLuminosityBlockAuxiliary b s) = b
   \<and> newRun (resetLuminosityBlockAuxiliary b s) = newRun s
   \<and> (resetLuminosityBlockAuxiliary b s)\<lparr>lumiAuxiliary_m := l', newLumi_m := m\<rparr>
       = s\<lparr>lumiAuxiliary_m := l', newLumi_m := m\<rparr>"
  by (simp add: runAuxiliary_def newRun_def luminosityBlockAuxiliary_def newLumi_def
      setRunAuxiliary_def setLuminosityBlockAuxiliary_def
      resetRunAuxiliary_def resetLuminosityBlockAuxiliary_def)

theorem set_and_reset_auxiliary_flags_witness:
  "newRun example_source = False
   \<and> newRun (setRunAuxiliary (Some 9) example_source) = True
   \<and> newLumi (setRunAuxiliary (Some 9) example_source) = True
   \<and> runAuxiliary (setRunAuxiliary (Some 9) example_source) = Some 9
   \<and> newLumi (setLuminosityBlockAuxiliary (Some 4) example_source) = True
   \<and> newRun (setLuminosityBlockAuxiliary (Some 4) example_source) = False
   \<and> newRun (resetLuminosityBlockAuxiliary True example_source) = False
   \<and> newRun (resetRunAuxiliary True example_source) = True"
  using set_and_reset_auxiliary_flags [of "Some 9" example_source _ _ _ "Some 4" _ True]
  by (simp add: example_source_def newRun_def)

section \<open>The invariant of ItemTypeInfo and the constructor\<close>

theorem position_invariant_not_enforced:
  "\<not> position_invariant (ItemTypeInfo2 IsEvent LastItemToBeMerged)"
  by (simp add: position_invariant_def ItemTypeInfo2_def itemType_def itemPosition_def)

text \<open>
  C7, as amended. The constructor stores any pair without a check, so an ItemTypeInfo
  satisfies "position not Invalid implies type Run or Lumi" exactly when it is built with
  the position \<open>Invalid\<close> or with the type \<open>IsRun\<close> or \<open>IsLumi\<close>: the invariant is a
  convention that whoever constructs the value has to keep. The values that the header
  builds itself satisfy it: those with the default position (\<open>ItemTypeInfo()\<close>,
  \<open>ItemTypeInfo(type)\<close>, the conversion from \<open>ItemType\<close>) and the state that \<open>reset()\<close>
  writes.
\<close>

theorem position_invariant_of_constructor:
  "(position_invariant (ItemTypeInfo2 t p) \<longleftrightarrow> p = Invalid \<or> t = IsRun \<or> t = IsLumi)
   \<and> position_invariant (ItemTypeInfo1 t')
   \<and> position_invariant ItemTypeInfo0
   \<and> position_invariant (state (reset s))"
  by (auto simp add: position_invariant_def ItemTypeInfo2_def ItemTypeInfo1_def ItemTypeInfo0_def
      itemType_def itemPosition_def state_def reset_def)

theorem position_invariant_of_constructor_witness:
  "position_invariant (ItemTypeInfo2 IsRun LastItemToBeMerged)
   \<and> position_invariant (ItemTypeInfo1 IsEvent)
   \<and> position_invariant (state (reset example_queue))"
  using position_invariant_of_constructor [of IsRun LastItemToBeMerged IsEvent example_queue]
  by simp

section \<open>The limit checks\<close>

text \<open>
  The rampdown comparison is in whole seconds: with a threshold of \<open>n\<close> seconds it
  holds from \<open>n + 1\<close> full seconds of elapsed time on.
\<close>

lemma duration_cast_seconds_gt:
  assumes "0 \<le> n"
  shows "(n < duration_cast_seconds d) = ((n + 1) * 1000000000 \<le> d)"
proof (cases "d < 0")
  case True
  with assms have "\<not> n < - (- d div 1000000000)"
    by auto
  moreover from True assms have "\<not> (n + 1) * 1000000000 \<le> d"
    by (simp add: algebra_simps)
  ultimately show ?thesis
    using True by (simp add: duration_cast_seconds_def)
next
  case False
  then have "(n < d div 1000000000) = ((n + 1) * 1000000000 \<le> d)"
    by (simp add: algebra_simps) linarith
  with False show ?thesis
    by (simp add: duration_cast_seconds_def)
qed

lemma lumiLimitReached_rampdown_ticks:
  assumes "remainingLumis_m s \<noteq> 0" and "0 < sint (maxSecondsUntilRampdown_m s)"
  shows "lumiLimitReached now s
           = ((sint (maxSecondsUntilRampdown_m s) + 1) * 1000000000 \<le> now - processingStart_m s)"
  using assms by (simp add: lumiLimitReached_def duration_cast_seconds_gt)

text \<open>
  C3. When the rampdown threshold is positive and the elapsed time since
  \<open>processingStart_\<close>, in seconds as \<open>duration_cast<seconds>\<close> gives them, is greater than
  the threshold, \<open>lumiLimitReached()\<close> is true whatever \<open>remainingLumis_\<close> is, and
  \<open>nextItemType()\<close> reports Stop; when the threshold is zero or negative,
  \<open>lumiLimitReached()\<close> is true exactly when \<open>remainingLumis_\<close> is 0, whatever the clock
  reads.
\<close>

theorem rampdown_lumi_limit:
  "(0 < sint (maxSecondsUntilRampdown_m s)
      \<and> sint (maxSecondsUntilRampdown_m s) < duration_cast_seconds (now - processingStart_m s)
     \<longrightarrow> lumiLimitReached now s \<and> itemType (fst (nextItemType getNextItemType now s)) = IsStop)
   \<and> (sint (maxSecondsUntilRampdown_m s) \<le> 0
     \<longrightarrow> lumiLimitReached now s = (remainingLumis_m s = 0))"
  by (simp add: lumiLimitReached_def nextItemType_def limitReached_def itemType_def
      ItemTypeInfo1_def ItemTypeInfo2_def)

theorem rampdown_lumi_limit_witness:
  "0 < sint (remainingLumis_m (example_queue\<lparr>remainingLumis_m := 2\<rparr>))
   \<and> duration_cast_seconds
         (7000000000 - processingStart_m (example_queue\<lparr>remainingLumis_m := 2\<rparr>)) = 6
   \<and> lumiLimitReached 7000000000 (example_queue\<lparr>remainingLumis_m := 2\<rparr>)
   \<and> itemType (fst (nextItemType QueueSource_getNextItemType 7000000000
                      (example_queue\<lparr>remainingLumis_m := 2\<rparr>))) = IsStop
   \<and> \<not> lumiLimitReached 7000000000
         (example_queue\<lparr>remainingLumis_m := 2, maxSecondsUntilRampdown_m := 0\<rparr>)"
  using rampdown_lumi_limit [of "example_queue\<lparr>remainingLumis_m := 2\<rparr>" 7000000000
      QueueSource_getNextItemType]
    rampdown_lumi_limit
      [of "example_queue\<lparr>remainingLumis_m := 2, maxSecondsUntilRampdown_m := 0\<rparr>" 7000000000]
  by (simp add: example_queue_def duration_cast_seconds_def)

section \<open>nextItemType()\<close>

text \<open>
  C2. If no event remains (\<open>remainingEvents()\<close> is 0, as it is when \<open>maxEvents\<close> is
  configured to 0), a call of \<open>nextItemType()\<close> returns Stop whatever the adapter's
  \<open>getNextItemType()\<close> would answer: the result and the source after the call are the same
  for every adapter, whatever the clock reads and whatever the state was.
\<close>

theorem no_events_first_call_stops:
  "remainingEvents s = 0 \<Longrightarrow>
     nextItemType getNextItemType now s
       = (ItemTypeInfo1 IsStop, s\<lparr>state_m := ItemTypeInfo1 IsStop\<rparr>)
     \<and> itemType (fst (nextItemType getNextItemType now s)) = IsStop"
  by (simp add: remainingEvents_def nextItemType_def limitReached_def eventLimitReached_def
      itemType_def ItemTypeInfo1_def ItemTypeInfo2_def)

theorem no_events_first_call_stops_witness:
  "remainingEvents (repeat (example_queue\<lparr>maxEvents_m := 0\<rparr>)) = 0
   \<and> fst (QueueSource_getNextItemType (repeat (example_queue\<lparr>maxEvents_m := 0\<rparr>)))
       = ItemTypeInfo1 IsFile
   \<and> itemType (fst (nextItemType QueueSource_getNextItemType 1000000000
                      (repeat (example_queue\<lparr>maxEvents_m := 0\<rparr>)))) = IsStop"
proof -
  let ?s = "repeat (example_queue\<lparr>maxEvents_m := 0\<rparr>)"
  have none_left: "remainingEvents ?s = 0"
    by (simp add: example_queue_def repeat_def remainingEvents_def)
  have answer: "fst (QueueSource_getNextItemType ?s) = ItemTypeInfo1 IsFile"
    by (simp add: example_queue_def repeat_def QueueSource_getNextItemType_def)
  have "itemType (fst (nextItemType QueueSource_getNextItemType 1000000000 ?s)) = IsStop"
    using no_events_first_call_stops [OF none_left] by blast
  with none_left answer show ?thesis by blast
qed

text \<open>
  C6. After \<open>reset()\<close> the accessors \<open>runAuxiliary()\<close> and \<open>luminosityBlockAuxiliary()\<close>
  return null and the cached ItemTypeInfo is the default one, of type \<open>IsInvalid\<close> and
  position \<open>Invalid\<close>; the next \<open>nextItemType()\<close> does not answer from the cache: it
  reports the Stop of a limit that is reached, and otherwise what the adapter answers
  when it is queried on the source as \<open>reset()\<close> left it.
\<close>

theorem reset_clears_cache:
  "runAuxiliary (reset s) = None
   \<and> luminosityBlockAuxiliary (reset s) = None
   \<and> itemType (state (reset s)) = IsInvalid
   \<and> itemPosition (state (reset s)) = Invalid
   \<and> nextItemType getNextItemType now (reset s) =
       (if limitReached now (reset s)
        then (ItemTypeInfo1 IsStop, (reset s)\<lparr>state_m := ItemTypeInfo1 IsStop\<rparr>)
        else (fst (getNextItemType (reset s)),
              (snd (getNextItemType (reset s)))\<lparr>state_m := fst (getNextItemType (reset s))\<rparr>))"
  by (simp add: runAuxiliary_def luminosityBlockAuxiliary_def state_def reset_def
      resetRunAuxiliary_def resetLuminosityBlockAuxiliary_def ItemTypeInfo0_def
      ItemTypeInfo2_def itemType_def itemPosition_def nextItemType_def limitReached_def
      eventLimitReached_def lumiLimitReached_def split: prod.splits)

theorem reset_clears_cache_witness:
  "runAuxiliary (reset example_source) = None
   \<and> luminosityBlockAuxiliary (reset example_source) = None
   \<and> state (reset example_source) = ItemTypeInfo0
   \<and> fst (nextItemType QueueSource_getNextItemType 2000000000
            (reset (example_queue\<lparr>state_m := ItemTypeInfo1 IsEvent\<rparr>)))
       = ItemTypeInfo1 IsFile"
proof -
  have "state (reset example_source) = ItemTypeInfo0"
    by (simp add: state_def reset_def)
  moreover have "\<not> limitReached 2000000000
                         (reset (example_queue\<lparr>state_m := ItemTypeInfo1 IsEvent\<rparr>))"
    by (simp add: example_queue_def reset_def resetRunAuxiliary_def
        resetLuminosityBlockAuxiliary_def limitReached_def eventLimitReached_def
        lumiLimitReached_def duration_cast_seconds_def)
  moreover have "fst (QueueSource_getNextItemType
                        (reset (example_queue\<lparr>state_m := ItemTypeInfo1 IsEvent\<rparr>)))
                   = ItemTypeInfo1 IsFile"
    by (simp add: example_queue_def reset_def resetRunAuxiliary_def
        resetLuminosityBlockAuxiliary_def QueueSource_getNextItemType_def)
  ultimately show ?thesis
    using reset_clears_cache [of example_source]
      reset_clears_cache [of "example_queue\<lparr>state_m := ItemTypeInfo1 IsEvent\<rparr>"
        QueueSource_getNextItemType 2000000000]
    by simp
qed

section \<open>goToEvent on an adapter without random access\<close>

text \<open>
  C8. \<open>goToEvent(eventID)\<close> on a source whose adapter does not override the hook
  \<open>goToEvent_\<close> returns false and leaves the source as it was, the cached ItemTypeInfo
  included.
\<close>

theorem goToEvent_unsupported:
  "goToEvent goToEvent_base eventID s = (False, s)
   \<and> fst (goToEvent goToEvent_base eventID s) = False
   \<and> state (snd (goToEvent goToEvent_base eventID s)) = state s"
  by (simp add: goToEvent_def goToEvent_base_def)

theorem goToEvent_unsupported_witness:
  "fst (goToEvent goToEvent_base (1 :: nat, 1 :: nat, 5 :: nat) example_source) = False
   \<and> state (snd (goToEvent goToEvent_base (1 :: nat, 1 :: nat, 5 :: nat) example_source))
       = ItemTypeInfo1 IsEvent"
  using goToEvent_unsupported [of "(1 :: nat, 1 :: nat, 5 :: nat)" example_source]
  by (simp add: example_source_def state_def)

section \<open>The lifecycle sentries\<close>

text \<open>
  C9. For every sentry (Event, Lumi, Run, ProcessBlock, FileOpen, FileClose): the scope
  that holds it emits its "begin" notification before anything the body emits and its
  "end" notification after everything the body emits, once each, and ends as the body
  ends, with its value or with its fault: the notifications added by the scope are the
  begin, those of the body, and the end, in that order.
\<close>

theorem sentry_begin_end_paired:
  "sentry_scope k body emitted
     = (fst (body (emitted @ [Begin k])), snd (body (emitted @ [Begin k])) @ [End k])
   \<and> sentry_scope k (\<lambda>l. (outcome, l @ inside)) emitted
     = (outcome, emitted @ [Begin k] @ inside @ [End k])"
  by (simp add: sentry_scope_def Sentry_ctor_def Sentry_dtor_def split: prod.splits sum.splits)

theorem sentry_begin_end_paired_witness:
  "sentry_scope (EventSourceSentry 3)
     (\<lambda>l. (Inl (Fault ''read'') :: fault + unit,
            l @ [Begin (FileOpenSentry ''a''), End (FileOpenSentry ''a'')])) []
   = (Inl (Fault ''read''),
      [Begin (EventSourceSentry 3), Begin (FileOpenSentry ''a''),
       End (FileOpenSentry ''a''), End (EventSourceSentry 3)])"
  using sentry_begin_end_paired [THEN conjunct2, of "EventSourceSentry 3"
      "Inl (Fault ''read'') :: fault + unit"
      "[Begin (FileOpenSentry ''a''), End (FileOpenSentry ''a'')]" "[]"]
  by simp

end
